theory Spec2Isabelle
  imports Complex_Main
begin

section \<open>Registration and invite codes (backend/app/api/auth.py, backend/app/api/admin.py)\<close>

subsection \<open>Documents and requests\<close>

text \<open>
  A \<open>datetime\<close> is naive (no \<open>tzinfo\<close>) or timezone-aware; the integer is its reading in
  milliseconds, in UTC for an aware value. \<open>replace(tzinfo=timezone.utc)\<close> keeps the reading.
\<close>

datatype datetime = Naive int | Aware int

text \<open>
  A field of a stored document that the handlers read defensively: the key may be absent,
  present with the value \<open>None\<close>, or present with a value.
\<close>

datatype 'a field = Absent | Null | Value 'a

record invite_doc =
  code :: string
  role :: string
  is_used :: "bool field"
  created_at :: datetime
  expires_at :: "datetime field"
  used_by :: "string option"
  used_at :: "datetime option"

record invite_code_request =
  role :: string
  count :: int
  expires_days :: "int option"

record invite_code_response =
  codes :: "string list"
  role :: string
  expires_at :: "datetime option"

text \<open>
  \<open>UserDocument\<close>, \<open>RegisterRequest\<close> and \<open>TokenResponse\<close> are declared outside the sources; the
  fields are those the handler reads and writes. The six profile fields are copied from the
  request to the document unchanged. The role of a validated request is taken to be one
  that \<open>UserRole\<close> accepts, so the document stores it as it is.
\<close>

record profile =
  age :: "int option"
  phone :: "string option"
  gestational_weeks :: "int option"
  pre_existing_conditions :: "string list"
  specialization :: "string option"
  license_number :: "string option"

record user_document =
  email :: string
  hashed_password :: string
  full_name :: string
  role :: string
  details :: profile
  created_at :: datetime

record token_response =
  access_token :: string
  token_type :: string
  expires_in :: int
  user_id :: string
  role :: string
  full_name :: string

record register_request =
  email :: string
  password :: string
  full_name :: string
  role :: string
  invite_code :: "string option"
  details :: profile

text \<open>
  The two collections the handlers touch. A collection is the list of its documents in
  insertion order; users are stored with the identifier the store gave them.
\<close>

record database =
  users :: "(string \<times> user_document) list"
  invite_codes :: "invite_doc list"

text \<open>
  What a handler raises: an \<open>HTTPException\<close> with status and detail, which the framework turns
  into that response, or an \<open>AttributeError\<close>, which no handler catches.
\<close>

datatype failure = HTTPException int string | AttributeError string

text \<open>
  What \<open>register\<close> takes from outside the sources: the clock, the identifier
  \<open>create_user\<close> returns, \<open>hash_password\<close>, \<open>create_access_token\<close> (applied to the \<open>sub\<close> and
  \<open>role\<close> of its data) and \<open>settings.JWT_EXPIRATION_MINUTES\<close>.
\<close>

record reg_env =
  now :: int
  new_user_id :: string
  hash_password :: "string \<Rightarrow> string"
  create_access_token :: "string \<Rightarrow> string \<Rightarrow> string"
  jwt_expiration_minutes :: int

text \<open>
  What \<open>generate_invite_codes\<close> takes from outside: the clock (\<open>datetime.utcnow()\<close>, one
  reading for the whole call) and the token that the \<open>i\<close>-th call of
  \<open>secrets.token_urlsafe(16)\<close> returns.
\<close>

record gen_env =
  utcnow :: int
  token_urlsafe :: "nat \<Rightarrow> string"

subsection \<open>Collection operations\<close>

text \<open>
  \<open>UserRepository\<close> is not part of the sources. \<open>get_user_by_email\<close> is taken to return the
  first stored user with that email, \<open>create_user\<close> to append the document and return its
  identifier.
\<close>

definition get_user_by_email :: "database \<Rightarrow> string \<Rightarrow> (string \<times> user_document) option" where
  "get_user_by_email db e = find (\<lambda>(uid, u). user_document.email u = e) (users db)"

definition create_user :: "string \<Rightarrow> user_document \<Rightarrow> database \<Rightarrow> string \<times> database" where
  "create_user uid u db = (uid, db\<lparr>users := users db @ [(uid, u)]\<rparr>)"

text \<open>\<open>find_one({"code": c})\<close>: the first document whose code is \<open>c\<close>.\<close>

definition find_one :: "invite_doc list \<Rightarrow> string \<Rightarrow> invite_doc option" where
  "find_one docs c = find (\<lambda>d. code d = c) docs"

text \<open>\<open>update_one({"code": c}, {"$set": ...})\<close>: the first matching document is updated.\<close>

fun update_one :: "string \<Rightarrow> (invite_doc \<Rightarrow> invite_doc) \<Rightarrow> invite_doc list \<Rightarrow> invite_doc list" where
  "update_one c f [] = []"
| "update_one c f (d # ds) = (if code d = c then f d # ds else d # update_one c f ds)"

text \<open>
  Python truthiness of \<open>invite_doc.get("is_used", False)\<close>. An optional string such as
  \<open>request.invite_code\<close> is falsy when it is \<open>None\<close> or empty.
\<close>

definition used :: "invite_doc \<Rightarrow> bool" where
  "used d = (case is_used d of Value b \<Rightarrow> b | _ \<Rightarrow> False)"

subsection \<open>generate\_invite\_codes\<close>

definition expiration :: "gen_env \<Rightarrow> invite_code_request \<Rightarrow> datetime option" where
  "expiration g request =
     (case expires_days request of
        None \<Rightarrow> None
      | Some days \<Rightarrow> if days = 0 then None else Some (Naive (utcnow g + days * 86400000)))"

definition new_invite :: "gen_env \<Rightarrow> invite_code_request \<Rightarrow> string \<Rightarrow> invite_doc" where
  "new_invite g request c =
     \<lparr>code = c,
      invite_doc.role = invite_code_request.role request,
      is_used = Value False,
      invite_doc.created_at = Naive (utcnow g),
      invite_doc.expires_at = (case expiration g request of None \<Rightarrow> Null | Some t \<Rightarrow> Value t),
      used_by = None,
      used_at = None\<rparr>"

text \<open>
  The loop \<open>for _ in range(request.count)\<close>, over the indices still to run: each round draws
  a token, inserts its document and appends the token to \<open>generated_codes\<close>.
\<close>

fun generate_loop ::
  "gen_env \<Rightarrow> invite_code_request \<Rightarrow> nat list \<Rightarrow> string list \<times> database \<Rightarrow> string list \<times> database"
where
  "generate_loop g request [] acc = acc"
| "generate_loop g request (i # rest) (generated_codes, db) =
     generate_loop g request rest
       (generated_codes @ [token_urlsafe g i],
        db\<lparr>invite_codes := invite_codes db @ [new_invite g request (token_urlsafe g i)]\<rparr>)"

definition generate_invite_codes ::
  "gen_env \<Rightarrow> invite_code_request \<Rightarrow> database \<Rightarrow> invite_code_response \<times> database"
where
  "generate_invite_codes g request db =
     (case generate_loop g request [0..<nat (count request)] ([], db) of
        (generated_codes, db') \<Rightarrow>
          (\<lparr>codes = generated_codes,
            invite_code_response.role = invite_code_request.role request,
            invite_code_response.expires_at = expiration g request\<rparr>, db'))"

subsection \<open>register\<close>

text \<open>
  The expiry check of \<open>register\<close>: it runs when the key \<open>expires_at\<close> is in the document, and
  reads \<open>expires_at.tzinfo\<close> of whatever value is stored there.
\<close>

definition check_expiry :: "int \<Rightarrow> invite_doc \<Rightarrow> failure option" where
  "check_expiry now_utc d =
     (case invite_doc.expires_at d of
        Absent \<Rightarrow> None
      | Null \<Rightarrow> Some (AttributeError ''NoneType object has no attribute tzinfo'')
      | Value t \<Rightarrow>
          (let aware = (case t of Naive x \<Rightarrow> x | Aware x \<Rightarrow> x)
           in if now_utc > aware
              then Some (HTTPException 403 ''Invite code has expired'')
              else None))"

text \<open>The invite-code validation for the doctor role; \<open>None\<close> when nothing is raised.\<close>

definition validate_invite :: "reg_env \<Rightarrow> register_request \<Rightarrow> database \<Rightarrow> failure option" where
  "validate_invite e request db =
     (if role request = ''doctor'' then
        (case invite_code request of
           None \<Rightarrow> Some (HTTPException 403 ''Doctor registration requires a valid invite code'')
         | Some c \<Rightarrow>
             if c = []
             then Some (HTTPException 403 ''Doctor registration requires a valid invite code'')
             else
               (case find_one (invite_codes db) c of
                  None \<Rightarrow> Some (HTTPException 403 ''Invalid invite code'')
                | Some invite \<Rightarrow>
                    if used invite
                    then Some (HTTPException 403 ''Invite code has already been used'')
                    else check_expiry (now e) invite))
      else None)"

definition mark_used :: "string \<Rightarrow> datetime \<Rightarrow> invite_doc \<Rightarrow> invite_doc" where
  "mark_used uid t d = d\<lparr>is_used := Value True, used_by := Some uid, used_at := Some t\<rparr>"

definition register ::
  "reg_env \<Rightarrow> register_request \<Rightarrow> database \<Rightarrow> (failure + token_response) \<times> database"
where
  "register e request db =
     (case get_user_by_email db (email request) of
        Some existing_user \<Rightarrow> (Inl (HTTPException 409 ''Email already registered''), db)
      | None \<Rightarrow>
          (case validate_invite e request db of
             Some f \<Rightarrow> (Inl f, db)
           | None \<Rightarrow>
               (let user_data =
                      \<lparr>user_document.email = email request,
                       hashed_password = hash_password e (password request),
                       user_document.full_name = full_name request,
                       user_document.role = role request,
                       user_document.details = details request,
                       user_document.created_at = Naive (now e)\<rparr>;
                    (uid, db1) = create_user (new_user_id e) user_data db;
                    db2 = (case invite_code request of
                             None \<Rightarrow> db1
                           | Some c \<Rightarrow>
                               if role request = ''doctor'' \<and> c \<noteq> []
                               then db1\<lparr>invite_codes :=
                                      update_one c
                                        (mark_used uid (user_document.created_at user_data))
                                        (invite_codes db1)\<rparr>
                               else db1)
                in (Inr \<lparr>access_token = create_access_token e uid (role request),
                         token_type = ''bearer'',
                         expires_in = jwt_expiration_minutes e * 60,
                         user_id = uid,
                         token_response.role = role request,
                         token_response.full_name = full_name request\<rparr>, db2))))"

text \<open>Handler calls executed one after the other.\<close>

datatype call = Register reg_env register_request | Generate gen_env invite_code_request

fun run :: "call list \<Rightarrow> database \<Rightarrow> database" where
  "run [] db = db"
| "run (Register e request # rest) db = run rest (snd (register e request db))"
| "run (Generate g request # rest) db = run rest (snd (generate_invite_codes g request db))"

text \<open>The code \<open>c\<close> is spent: the document that \<open>find_one\<close> returns for it is marked used.\<close>

definition spent :: "database \<Rightarrow> string \<Rightarrow> bool" where
  "spent db c = (case find_one (invite_codes db) c of None \<Rightarrow> False | Some d \<Rightarrow> used d)"

section \<open>System health and the decision pipeline (backend/app/api/admin.py, spec sections 3 and 4)\<close>

subsection \<open>Risk assessments and the circuit breaker\<close>

datatype engine_source = RULES | MODEL | RULES_FALLBACK

datatype risk_tier = LOW | MEDIUM | HIGH | CRITICAL

datatype breaker_state = CLOSED | OPEN | HALF_OPEN

fun tier_rank :: "risk_tier \<Rightarrow> nat" where
  "tier_rank LOW = 0"
| "tier_rank MEDIUM = 1"
| "tier_rank HIGH = 2"
| "tier_rank CRITICAL = 3"

record clinical_alert =
  tag :: string
  note_text :: string

record risk_assessment =
  tier :: risk_tier
  confidence :: real
  alerts :: "clinical_alert list"
  source :: engine_source
  feature_importance :: "(string \<times> real) list option"

record honeypot_event =
  fingerprint :: string
  anomaly :: string
  detected_at :: int

text \<open>
  The circuit breaker's state as the spec's data model lists it: one of three states, the
  consecutive-failure counter and the last-failure timestamp. The failure threshold and the
  cool-down are configuration.
\<close>

record breaker =
  state :: breaker_state
  failures :: nat
  last_failure :: "int option"

record breaker_config =
  failure_threshold :: nat
  cool_down :: int

text \<open>
  Modelled from the spec: \<open>circuit_breaker.get_status\<close> (app.engine.circuit is not part of the
  sources) exposes state, counter and last-failure time without mutating the breaker.
\<close>

definition get_status :: "breaker \<Rightarrow> breaker" where
  "get_status b = b"

subsection \<open>Ledger statistics and get\_system\_health\<close>

text \<open>
  The two record streams behind the statistics: assessments and honeypot events.
\<close>

record fsm_collections =
  triage_decisions :: "risk_assessment list"
  honeypot_alerts :: "honeypot_event list"

record aggregate_statistics =
  by_rules :: nat
  by_model :: nat
  by_rules_fallback :: nat
  honeypot_triggers :: nat

text \<open>
  Modelled from the spec: \<open>FSMTriageRepository.get_fsm_statistics\<close> (app.db.fsm\_repository is
  not part of the sources) computes the aggregate statistics on demand: the totals by engine
  source over the assessment records, and the honeypot trigger count as the count of
  HoneypotEvent entries from their own record stream.
\<close>

definition get_fsm_statistics :: "fsm_collections \<Rightarrow> aggregate_statistics" where
  "get_fsm_statistics db =
     \<lparr>by_rules = length (filter (\<lambda>a. source a = RULES) (triage_decisions db)),
      by_model = length (filter (\<lambda>a. source a = MODEL) (triage_decisions db)),
      by_rules_fallback = length (filter (\<lambda>a. source a = RULES_FALLBACK) (triage_decisions db)),
      honeypot_triggers = length (honeypot_alerts db)\<rparr>"

record system_health =
  status :: string
  database_connected :: bool
  ml_model_loaded :: bool
  circuit_breaker_state :: breaker_state
  timestamp :: int
  fsm_statistics :: aggregate_statistics

text \<open>
  \<open>get_system_health\<close>, from admin.py. \<open>db_client.is_connected\<close>, \<open>predictor.is_loaded\<close>, the
  process-wide breaker and the clock are its inputs from outside the sources.
\<close>

definition get_system_health ::
  "bool \<Rightarrow> bool \<Rightarrow> breaker \<Rightarrow> int \<Rightarrow> fsm_collections \<Rightarrow> system_health"
where
  "get_system_health db_connected ml_loaded circuit_breaker utc_now db =
     (let cb_status = get_status circuit_breaker;
          fsm_stats = get_fsm_statistics db;
          overall_status =
            (if db_connected \<and> ml_loaded then ''healthy''
             else if db_connected then ''degraded''
             else ''unhealthy'')
      in \<lparr>system_health.status = overall_status,
          database_connected = db_connected,
          ml_model_loaded = ml_loaded,
          circuit_breaker_state = state cb_status,
          timestamp = utc_now,
          fsm_statistics = fsm_stats\<rparr>)"

subsection \<open>Circuit breaker and arbiter\<close>

text \<open>
  The outputs of the two classifiers, as the arbiter receives them. The model's output is
  present only when it was attempted and succeeded.
\<close>

record rule_output =
  rule_tier :: risk_tier
  rule_confidence :: real
  rule_alerts :: "clinical_alert list"

record model_output =
  model_tier :: risk_tier
  model_confidence :: real
  model_importance :: "(string \<times> real) list"

text \<open>
  Modelled from the spec: the circuit breaker of section 4.4 (app.engine.circuit is not part
  of the sources). An OPEN breaker turns HALF\_OPEN once the cool-down has elapsed since the
  last failure. In CLOSED, a failure increments the counter and opens the breaker when the
  counter reaches the threshold, a success resets the counter. In HALF\_OPEN the probe's
  success closes the breaker and resets the counter, its failure opens it again and
  restarts the cool-down.
\<close>

definition cooled :: "breaker_config \<Rightarrow> int \<Rightarrow> breaker \<Rightarrow> bool" where
  "cooled cfg t b = (case last_failure b of None \<Rightarrow> False | Some f \<Rightarrow> cool_down cfg \<le> t - f)"

definition elapse :: "breaker_config \<Rightarrow> int \<Rightarrow> breaker \<Rightarrow> breaker" where
  "elapse cfg t b = (if state b = OPEN \<and> cooled cfg t b then b\<lparr>state := HALF_OPEN\<rparr> else b)"

definition record_success :: "breaker \<Rightarrow> breaker" where
  "record_success b = b\<lparr>state := CLOSED, failures := 0\<rparr>"

definition record_failure :: "breaker_config \<Rightarrow> int \<Rightarrow> breaker \<Rightarrow> breaker" where
  "record_failure cfg t b =
     (case state b of
        CLOSED \<Rightarrow>
          b\<lparr>failures := Suc (failures b),
            last_failure := Some t,
            state := (if failure_threshold cfg \<le> Suc (failures b) then OPEN else CLOSED)\<rparr>
      | HALF_OPEN \<Rightarrow> b\<lparr>state := OPEN, last_failure := Some t\<rparr>
      | OPEN \<Rightarrow> b)"

definition initial_breaker :: breaker where
  "initial_breaker = \<lparr>state = CLOSED, failures = 0, last_failure = None\<rparr>"

text \<open>
  Modelled from the spec: the decision arbiter of section 4.5 (it is not part of the
  sources). With a model result, the model's confidence is taken, the rule alerts stay
  attached and the tier is the maximum of both tiers; the engine source is MODEL when the
  model raises the tier above the rule tier and RULES otherwise (section 8: engine source
  RULES unless the model overrides upward). Without a model result the rule result stands
  alone with engine source RULES\_FALLBACK.
\<close>

definition max_tier :: "risk_tier \<Rightarrow> risk_tier \<Rightarrow> risk_tier" where
  "max_tier a b = (if tier_rank a \<le> tier_rank b then b else a)"

definition arbitrate :: "rule_output \<Rightarrow> model_output option \<Rightarrow> risk_assessment" where
  "arbitrate r m =
     (case m of
        None \<Rightarrow>
          \<lparr>tier = rule_tier r, confidence = rule_confidence r, alerts = rule_alerts r,
           source = RULES_FALLBACK, feature_importance = None\<rparr>
      | Some out \<Rightarrow>
          \<lparr>tier = max_tier (model_tier out) (rule_tier r),
           confidence = model_confidence out,
           alerts = rule_alerts r,
           source = (if tier_rank (rule_tier r) < tier_rank (model_tier out) then MODEL else RULES),
           feature_importance = Some (model_importance out)\<rparr>)"

text \<open>
  One submission reaching the pipeline: its arrival time, the rule classifier's output and
  what the model classifier answers if it is called (\<open>None\<close>: it fails or times out).
\<close>

record submission =
  arrival :: int
  rules :: rule_output
  model_answer :: "model_output option"

text \<open>
  A ledger entry: the assessment, with the breaker's state when the submission was
  dispatched (after the cool-down check) and the state it was left in.
\<close>

record entry =
  dispatched_in :: breaker_state
  left_in :: breaker_state
  assessment :: risk_assessment

record pipeline =
  circuit :: breaker
  ledger :: "entry list"

text \<open>
  Modelled from the spec: \<open>classify\<close> (sections 2 and 4.4 to 4.6). The breaker gates the model
  classifier: an OPEN breaker never attempts it; a CLOSED or HALF\_OPEN breaker does and
  records the outcome. The arbiter's assessment is appended to the ledger.
\<close>

definition classify :: "breaker_config \<Rightarrow> submission \<Rightarrow> pipeline \<Rightarrow> risk_assessment \<times> pipeline" where
  "classify cfg s p =
     (let b = elapse cfg (arrival s) (circuit p);
          attempt = (if state b = OPEN then None else model_answer s);
          b' = (if state b = OPEN then b
                else (case attempt of
                        None \<Rightarrow> record_failure cfg (arrival s) b
                      | Some out \<Rightarrow> record_success b));
          a = arbitrate (rules s) attempt
      in (a, \<lparr>circuit = b',
               ledger = ledger p @ [\<lparr>dispatched_in = state b, left_in = state b', assessment = a\<rparr>]\<rparr>))"

definition initial_pipeline :: pipeline where
  "initial_pipeline = \<lparr>circuit = initial_breaker, ledger = []\<rparr>"

fun serve :: "breaker_config \<Rightarrow> submission list \<Rightarrow> pipeline \<Rightarrow> pipeline" where
  "serve cfg [] p = p"
| "serve cfg (s # rest) p = serve cfg rest (snd (classify cfg s p))"


section \<open>External insight client (backend/app/engine/zudu\_integration.py)\<close>

subsection \<open>Values, exceptions and the HTTP exchange\<close>

text \<open>
  JSON values as Python holds them after \<open>response.json()\<close>: a dict is an association list
  read with \<open>map_of\<close> (\<open>dict.get\<close>). Numbers are carried through unchanged by the client, which
  never computes with them.
\<close>

datatype json =
    JNull
  | JBool bool
  | JNum real
  | JStr string
  | JArr "json list"
  | JObj "(string \<times> json) list"

text \<open>
  The exceptions that can travel through the client. Only subclasses of Python's
  \<open>Exception\<close> are modelled; \<open>OtherException\<close> stands for every subclass that is neither
  \<open>ZuduAPIException\<close>, \<open>asyncio.TimeoutError\<close> nor \<open>aiohttp.ClientError\<close>. Signals that
  derive from \<open>BaseException\<close> only (task cancellation, interpreter exit) belong to the
  scheduler and are outside this model.
\<close>

datatype exn =
    ZuduAPIException string
  | TimeoutError
  | ClientError string
  | OtherException string

text \<open>
  What the service answers to one \<open>session.post\<close>: the call raises, or it yields a response
  with a status, whose \<open>json()\<close> and \<open>text()\<close> awaits may raise in turn.
\<close>

record http_response =
  status :: int
  json_body :: "exn + json"
  text_body :: "exn + string"

datatype http_event = Raised exn | Responded http_response

record request =
  url :: string
  body :: json
  headers :: "(string \<times> string) list"

record session_t =
  total_timeout :: real
  closed :: bool

text \<open>
  The fields of \<open>ZuduAIClient\<close> set from \<open>settings\<close> in \<open>__init__\<close>. The settings module is
  not part of the sources, so the four values are parameters; \<open>api_key\<close> may be \<open>None\<close>.
\<close>

record client =
  api_key :: "string option"
  endpoint :: string
  timeout_seconds :: real
  max_retries :: int

text \<open>
  The mutable part: the lazily created session, and the observable effects in the order
  they happen: every call of \<open>session.post\<close>, every \<open>asyncio.sleep\<close> duration, and the
  \<open>(attempt, max_retries)\<close> pair written by \<open>logger.debug\<close> at the start of each
  invocation of \<open>_make_request\<close>. The timeline holds the attempts and the sleeps together,
  in the order in which they happen.
\<close>

datatype effect = Attempted int | Slept real

record net =
  session :: "session_t option"
  requests :: "request list"
  sleeps :: "real list"
  attempt_log :: "(int \<times> int) list"
  timeline :: "effect list"

subsection \<open>Decimal rendering of integers (Python f-strings)\<close>

text \<open>\<open>digit_char\<close> is applied to digits below ten only.\<close>

definition digit_char :: "nat \<Rightarrow> char" where
  "digit_char d = ''0123456789'' ! d"

function string_of_nat :: "nat \<Rightarrow> string" where
  "string_of_nat n =
     (if n < 10 then [digit_char n] else string_of_nat (n div 10) @ [digit_char (n mod 10)])"
  by pat_completeness auto
termination
  by (relation "measure id") auto

declare string_of_nat.simps [simp del]

definition string_of_int :: "int \<Rightarrow> string" where
  "string_of_int i = (if i < 0 then CHR ''-'' # string_of_nat (nat (- i)) else string_of_nat (nat i))"

subsection \<open>The client\<close>

definition get_session :: "client \<Rightarrow> net \<Rightarrow> net" where
  "get_session c st =
     (case session st of
        None \<Rightarrow> st\<lparr>session := Some \<lparr>total_timeout = timeout_seconds c, closed = False\<rparr>\<rparr>
      | Some s \<Rightarrow>
          if closed s
          then st\<lparr>session := Some \<lparr>total_timeout = timeout_seconds c, closed = False\<rparr>\<rparr>
          else st)"

definition close :: "net \<Rightarrow> net" where
  "close st =
     (case session st of
        None \<Rightarrow> st
      | Some s \<Rightarrow> if \<not> closed s then st\<lparr>session := Some (s\<lparr>closed := True\<rparr>)\<rparr> else st)"

definition bearer :: "client \<Rightarrow> string" where
  "bearer c = ''Bearer '' @ (case api_key c of None \<Rightarrow> ''None'' | Some k \<Rightarrow> k)"

definition make_headers :: "client \<Rightarrow> (string \<times> string) list" where
  "make_headers c = [(''Authorization'', bearer c), (''Content-Type'', ''application/json'')]"

text \<open>The body of the \<open>async with session.post(...) as response\<close> block: a value or a raise.\<close>

definition on_response :: "http_response \<Rightarrow> exn + json" where
  "on_response r =
     (if status r = 200 then json_body r
      else if status r = 401 then Inl (ZuduAPIException ''Invalid Zudu AI API key'')
      else if status r = 429 then Inl (ZuduAPIException ''Rate limit exceeded'')
      else (case text_body r of
              Inl e \<Rightarrow> Inl e
            | Inr error_text \<Rightarrow>
                Inl (ZuduAPIException
                      (''API error '' @ string_of_int (status r) @ '': '' @ error_text))))"

definition post_outcome :: "http_event \<Rightarrow> exn + json" where
  "post_outcome ev = (case ev of Raised e \<Rightarrow> Inl e | Responded r \<Rightarrow> on_response r)"

text \<open>
  \<open>2 ** attempt\<close>: an exact integer for a non-negative attempt, the reciprocal power of two
  (a float in Python) for a negative one.
\<close>

definition sleep_time :: "int \<Rightarrow> real" where
  "sleep_time attempt = (if 0 \<le> attempt then 2 ^ nat attempt else 1 / 2 ^ nat (- attempt))"

text \<open>
  \<open>_make_request\<close>. The environment \<open>env\<close> gives the outcome of the \<open>k\<close>-th post of the run
  (\<open>k\<close> counts the requests already sent). Exceptions raised in a handler, and by the
  recursive call made there, propagate unchanged.
\<close>

function make_request ::
  "client \<Rightarrow> (nat \<Rightarrow> http_event) \<Rightarrow> json \<Rightarrow> int \<Rightarrow> net \<Rightarrow> (exn + json) \<times> net"
where
  "make_request c env payload attempt st =
     (let st1 = get_session c st;
          st2 = st1\<lparr>attempt_log := attempt_log st1 @ [(attempt, max_retries c)],
                   timeline := timeline st1 @ [Attempted attempt]\<rparr>;
          ev = env (length (requests st2));
          st3 = st2\<lparr>requests := requests st2 @
                  [\<lparr>url = endpoint c, body = payload, headers = make_headers c\<rparr>]\<rparr>
      in case post_outcome ev of
           Inr data \<Rightarrow> (Inr data, st3)
         | Inl TimeoutError \<Rightarrow>
             if attempt < max_retries c
             then make_request c env payload (attempt + 1)
                    (st3\<lparr>sleeps := sleeps st3 @ [sleep_time attempt],
                         timeline := timeline st3 @ [Slept (sleep_time attempt)]\<rparr>)
             else (Inl (ZuduAPIException ''Request timeout after retries''), st3)
         | Inl (ClientError msg) \<Rightarrow>
             if attempt < max_retries c
             then make_request c env payload (attempt + 1)
                    (st3\<lparr>sleeps := sleeps st3 @ [sleep_time attempt],
                         timeline := timeline st3 @ [Slept (sleep_time attempt)]\<rparr>)
             else (Inl (ZuduAPIException (''Connection error: '' @ msg)), st3)
         | Inl e \<Rightarrow> (Inl e, st3))"
  by pat_completeness auto
termination
  by (relation "measure (\<lambda>(c, env, payload, attempt, st). nat (max_retries c - attempt))") auto

declare make_request.simps [simp del]

subsection \<open>Clinical context analysis\<close>

text \<open>
  \<open>ClinicalVitals\<close> is declared outside the sources; the client reads these eight numeric
  attributes of it. The risk assessment is a \<open>Dict[str, Any]\<close>.
\<close>

record vitals =
  age :: real
  systolic_bp :: real
  diastolic_bp :: real
  blood_sugar :: real
  body_temp :: real
  heart_rate :: real
  blood_oxygen :: real
  gestational_weeks :: real

text \<open>The dictionary returned by \<open>analyze_clinical_context\<close>: always these five keys.\<close>

record insight =
  clinical_insights :: json
  recommended_actions :: json
  risk_explanation :: json
  urgency_score :: json
  zudu_available :: bool

definition default_actions :: "json list" where
  "default_actions =
     [JStr ''Consult with healthcare provider for detailed evaluation'',
      JStr ''Continue monitoring vital signs regularly'',
      JStr ''Follow prescribed prenatal care schedule'']"

definition get_fallback_response :: "string \<Rightarrow> insight" where
  "get_fallback_response reason =
     \<lparr>clinical_insights =
        JStr (''Zudu AI unavailable ('' @ reason @ ''). Using clinical rules assessment.''),
      recommended_actions = JArr default_actions,
      risk_explanation =
        JStr ''Standard clinical assessment completed. Consult healthcare provider for AI-enhanced insights.'',
      urgency_score = JNum 5,
      zudu_available = False\<rparr>"

definition dict_get :: "(string \<times> json) list \<Rightarrow> string \<Rightarrow> json \<Rightarrow> json" where
  "dict_get d k dflt = (case map_of d k of None \<Rightarrow> dflt | Some v \<Rightarrow> v)"

definition map_get :: "(string \<rightharpoonup> json) \<Rightarrow> string \<Rightarrow> json \<Rightarrow> json" where
  "map_get d k dflt = (case d k of None \<Rightarrow> dflt | Some v \<Rightarrow> v)"

definition build_payload :: "vitals \<Rightarrow> (string \<rightharpoonup> json) \<Rightarrow> json" where
  "build_payload v risk_assessment =
     JObj [(''vitals'',
            JObj [(''age'', JNum (age v)),
                  (''systolic_bp'', JNum (systolic_bp v)),
                  (''diastolic_bp'', JNum (diastolic_bp v)),
                  (''blood_sugar'', JNum (blood_sugar v)),
                  (''body_temp'', JNum (body_temp v)),
                  (''heart_rate'', JNum (heart_rate v)),
                  (''blood_oxygen'', JNum (blood_oxygen v)),
                  (''gestational_weeks'', JNum (gestational_weeks v))]),
           (''current_risk'', map_get risk_assessment ''risk_level'' (JStr ''UNKNOWN'')),
           (''alerts'', map_get risk_assessment ''alerts'' (JArr [])),
           (''patient_age'', JNum (age v)),
           (''gestational_weeks'', JNum (gestational_weeks v))]"

text \<open>
  The \<open>return {...}\<close> of the try block: \<open>response.get\<close> exists on a dict only, any other
  JSON value raises \<open>AttributeError\<close>.
\<close>

definition read_response :: "json \<Rightarrow> exn + insight" where
  "read_response response =
     (case response of
        JObj d \<Rightarrow>
          Inr \<lparr>clinical_insights = dict_get d ''clinical_insights'' (JStr ''AI analysis completed''),
               recommended_actions = dict_get d ''recommended_actions'' (JArr []),
               risk_explanation = dict_get d ''risk_explanation'' (JStr ''Risk factors analyzed''),
               urgency_score = dict_get d ''urgency_score'' (JNum 5),
               zudu_available = True\<rparr>
      | _ \<Rightarrow> Inl (OtherException ''AttributeError''))"

definition analyze_try ::
  "client \<Rightarrow> (nat \<Rightarrow> http_event) \<Rightarrow> vitals \<Rightarrow> (string \<rightharpoonup> json) \<Rightarrow> net \<Rightarrow> (exn + insight) \<times> net"
where
  "analyze_try c env v risk_assessment st =
     (case make_request c env (build_payload v risk_assessment) 1 st of
        (Inl e, st') \<Rightarrow> (Inl e, st')
      | (Inr response, st') \<Rightarrow> (read_response response, st'))"

definition key_missing :: "client \<Rightarrow> bool" where
  "key_missing c =
     (case api_key c of None \<Rightarrow> True | Some k \<Rightarrow> k = [] \<or> k = ''your_zudu_api_key_here'')"

definition analyze_clinical_context ::
  "client \<Rightarrow> (nat \<Rightarrow> http_event) \<Rightarrow> vitals \<Rightarrow> (string \<rightharpoonup> json) \<Rightarrow> net \<Rightarrow> (exn + insight) \<times> net"
where
  "analyze_clinical_context c env v risk_assessment st =
     (if key_missing c then (Inr (get_fallback_response ''API key not configured''), st)
      else
        (case analyze_try c env v risk_assessment st of
           (Inr result, st') \<Rightarrow> (Inr result, st')
         | (Inl (ZuduAPIException msg), st') \<Rightarrow> (Inr (get_fallback_response msg), st')
         | (Inl e, st') \<Rightarrow> (Inr (get_fallback_response ''Unexpected error''), st')))"

text \<open>An outcome that \<open>_make_request\<close> answers with a retry: a timeout or a connection failure.\<close>

definition retryable :: "http_event \<Rightarrow> bool" where
  "retryable ev =
     (case post_outcome ev of
        Inl TimeoutError \<Rightarrow> True
      | Inl (ClientError msg) \<Rightarrow> True
      | _ \<Rightarrow> False)"

subsection \<open>Concrete inputs for registration\<close>

definition empty_db :: database where
  "empty_db = \<lparr>users = [], invite_codes = []\<rparr>"

definition demo_gen :: gen_env where
  "demo_gen = \<lparr>utcnow = 0, token_urlsafe = (\<lambda>i. ''kX9mPqL8'' @ replicate i CHR ''z'')\<rparr>"

definition demo_reg :: reg_env where
  "demo_reg =
     \<lparr>now = 1000, new_user_id = ''u1'', hash_password = (\<lambda>p. CHR ''#'' # p),
      create_access_token = (\<lambda>sub r. sub @ ''.'' @ r), jwt_expiration_minutes = 30\<rparr>"

definition no_profile :: profile where
  "no_profile =
     \<lparr>profile.age = None, phone = None, profile.gestational_weeks = None, pre_existing_conditions = [],
      specialization = Some ''Obstetrics'', license_number = Some ''MD12345''\<rparr>"

definition doctor_request :: register_request where
  "doctor_request =
     \<lparr>email = ''dr.smith@hospital.com'', password = ''SecurePass123'',
      full_name = ''Dr. Jane Smith'', role = ''doctor'', invite_code = Some ''kX9mPqL8'',
      details = no_profile\<rparr>"

definition expiring_codes :: invite_code_request where
  "expiring_codes = \<lparr>invite_code_request.role = ''doctor'', count = 1, expires_days = Some 7\<rparr>"

definition lasting_codes :: invite_code_request where
  "lasting_codes = \<lparr>invite_code_request.role = ''doctor'', count = 1, expires_days = None\<rparr>"

definition invited_db :: database where
  "invited_db = snd (generate_invite_codes demo_gen expiring_codes empty_db)"

definition registered_db :: database where
  "registered_db = snd (register demo_reg doctor_request invited_db)"

definition second_reg :: reg_env where
  "second_reg = demo_reg\<lparr>now := 2000, new_user_id := ''u2''\<rparr>"

subsection \<open>Concrete inputs for the pipeline and the statistics\<close>

definition demo_config :: breaker_config where
  "demo_config = \<lparr>failure_threshold = 2, cool_down = 60\<rparr>"

definition hypertension :: rule_output where
  "hypertension =
     \<lparr>rule_tier = HIGH, rule_confidence = 4 / 5,
      rule_alerts = [\<lparr>tag = ''HYPERTENSIVE_CRISIS'', note_text = ''systolic 150 over 95''\<rparr>]\<rparr>"

definition model_critical :: model_output where
  "model_critical =
     \<lparr>model_tier = CRITICAL, model_confidence = 9 / 10, model_importance = [(''systolic_bp'', 1)]\<rparr>"

definition failing_at :: "int \<Rightarrow> submission" where
  "failing_at t = \<lparr>arrival = t, rules = hypertension, model_answer = None\<rparr>"

definition answered_at :: "int \<Rightarrow> submission" where
  "answered_at t = \<lparr>arrival = t, rules = hypertension, model_answer = Some model_critical\<rparr>"

definition demo_traffic :: "submission list" where
  "demo_traffic = [failing_at 0, failing_at 1, answered_at 2, answered_at 100]"

definition probe_event :: "int \<Rightarrow> honeypot_event" where
  "probe_event t = \<lparr>fingerprint = ''f00d'', anomaly = ''impossible vitals'', detected_at = t\<rparr>"

definition demo_collections :: fsm_collections where
  "demo_collections =
     \<lparr>triage_decisions = [arbitrate hypertension None],
      honeypot_alerts = [probe_event 1, probe_event 2, probe_event 3]\<rparr>"

subsection \<open>Concrete inputs for the insight client\<close>

definition net0 :: net where
  "net0 = \<lparr>session = None, requests = [], sleeps = [], attempt_log = [], timeline = []\<rparr>"

definition demo_client :: client where
  "demo_client =
     \<lparr>api_key = Some ''sk-live-1'', endpoint = ''https://zudu.example/v1/analyze'',
      timeout_seconds = 10, max_retries = 3\<rparr>"

definition demo_vitals :: vitals where
  "demo_vitals =
     \<lparr>age = 30, systolic_bp = 150, diastolic_bp = 95, blood_sugar = 11 / 2, body_temp = 37,
      heart_rate = 80, blood_oxygen = 98, gestational_weeks = 28\<rparr>"

definition demo_assessment :: "string \<rightharpoonup> json" where
  "demo_assessment =
     [''risk_level'' \<mapsto> JStr ''HIGH'', ''alerts'' \<mapsto> JArr [JStr ''HYPERTENSIVE_CRISIS'']]"

definition env_timeout :: "nat \<Rightarrow> http_event" where
  "env_timeout k = Raised TimeoutError"

definition env_status :: "int \<Rightarrow> nat \<Rightarrow> http_event" where
  "env_status s k = Responded \<lparr>status = s, json_body = Inr (JObj []), text_body = Inr ''busy''\<rparr>"




section \<open>Properties of the external insight client\<close>

lemma get_session_frame [simp]:
  "requests (get_session c st) = requests st"
  "sleeps (get_session c st) = sleeps st"
  "attempt_log (get_session c st) = attempt_log st"
  "timeline (get_session c st) = timeline st"
  by (auto simp: get_session_def split: option.splits)

lemma get_session_idem [simp]: "get_session c (get_session c st) = get_session c st"
  by (auto simp: get_session_def split: option.splits)

lemma get_session_upd [simp]:
  "get_session c (st\<lparr>requests := r\<rparr>) = (get_session c st)\<lparr>requests := r\<rparr>"
  "get_session c (st\<lparr>sleeps := s\<rparr>) = (get_session c st)\<lparr>sleeps := s\<rparr>"
  "get_session c (st\<lparr>attempt_log := l\<rparr>) = (get_session c st)\<lparr>attempt_log := l\<rparr>"
  "get_session c (st\<lparr>timeline := t\<rparr>) = (get_session c st)\<lparr>timeline := t\<rparr>"
  by (auto simp: get_session_def split: option.splits)

text \<open>One invocation that does not retry, and one that does.\<close>

lemma make_request_stop:
  assumes "\<not> (retryable (env (length (requests st))) \<and> attempt < max_retries c)"
  shows "snd (make_request c env payload attempt st) =
           (get_session c st)\<lparr>attempt_log := attempt_log st @ [(attempt, max_retries c)],
              requests := requests st @ [\<lparr>url = endpoint c, body = payload, headers = make_headers c\<rparr>],
              timeline := timeline st @ [Attempted attempt]\<rparr>"
    and "fst (make_request c env payload attempt st) =
           (case post_outcome (env (length (requests st))) of
              Inl TimeoutError \<Rightarrow> Inl (ZuduAPIException ''Request timeout after retries'')
            | Inl (ClientError msg) \<Rightarrow> Inl (ZuduAPIException (''Connection error: '' @ msg))
            | r \<Rightarrow> r)"
  using assms
  by (subst make_request.simps; auto simp: Let_def retryable_def split: sum.splits exn.splits)+

lemma make_request_retry:
  assumes "retryable (env (length (requests st)))" "attempt < max_retries c"
  shows "make_request c env payload attempt st =
           make_request c env payload (attempt + 1)
             ((get_session c st)\<lparr>attempt_log := attempt_log st @ [(attempt, max_retries c)],
                requests := requests st @ [\<lparr>url = endpoint c, body = payload, headers = make_headers c\<rparr>],
                sleeps := sleeps st @ [sleep_time attempt],
                timeline := timeline st @ [Attempted attempt, Slept (sleep_time attempt)]\<rparr>)"
  using assms
  by (subst make_request.simps) (auto simp: Let_def retryable_def split: sum.splits exn.splits)

text \<open>
  The effects of one call of \<open>_make_request\<close>, for \<open>n\<close> recursive self-invocations: the
  attempt numbers logged, the requests, the sleeps, and their order.
\<close>

lemma make_request_trace:
  "\<exists>n. (n = 0 \<or> attempt + int n \<le> max_retries c) \<and>
       attempt_log (snd (make_request c env payload attempt st)) =
         attempt_log st @ map (\<lambda>k. (attempt + int k, max_retries c)) [0..<Suc n] \<and>
       requests (snd (make_request c env payload attempt st)) =
         requests st @ replicate (Suc n) \<lparr>url = endpoint c, body = payload, headers = make_headers c\<rparr> \<and>
       sleeps (snd (make_request c env payload attempt st)) =
         sleeps st @ map (\<lambda>k. sleep_time (attempt + int k)) [0..<n] \<and>
       timeline (snd (make_request c env payload attempt st)) =
         timeline st @
         concat (map (\<lambda>k. [Attempted (attempt + int k), Slept (sleep_time (attempt + int k))]) [0..<n]) @
         [Attempted (attempt + int n)] \<and>
       session (snd (make_request c env payload attempt st)) = session (get_session c st)"
proof (induction c env payload attempt st rule: make_request.induct)
  case (1 c env payload attempt st)
  let ?req = "\<lparr>url = endpoint c, body = payload, headers = make_headers c\<rparr>"
  let ?st4 = "(get_session c st)\<lparr>attempt_log := attempt_log st @ [(attempt, max_retries c)],
                requests := requests st @ [?req],
                sleeps := sleeps st @ [sleep_time attempt],
                timeline := timeline st @ [Attempted attempt, Slept (sleep_time attempt)]\<rparr>"
  show ?case
  proof (cases "retryable (env (length (requests st))) \<and> attempt < max_retries c")
    case False
    note stop = make_request_stop [of env st attempt c payload, OF False]
    show ?thesis
      by (intro exI[of _ 0]) (simp add: stop(1))
  next
    case True
    then have r: "retryable (env (length (requests st)))" and lt: "attempt < max_retries c"
      by simp_all
    note rec = make_request_retry [of env st attempt c payload, OF r lt]
    from r obtain e where e: "post_outcome (env (length (requests st))) = Inl e"
      "e = TimeoutError \<or> (\<exists>m. e = ClientError m)"
      by (auto simp: retryable_def split: sum.splits exn.splits)
    from e lt "1.IH"(1)[OF refl refl refl refl] "1.IH"(2)[OF refl refl refl refl]
    obtain n where n: "(n = 0 \<or> attempt + 1 + int n \<le> max_retries c)"
      "attempt_log (snd (make_request c env payload (attempt + 1) ?st4)) =
         attempt_log ?st4 @ map (\<lambda>k. (attempt + 1 + int k, max_retries c)) [0..<Suc n]"
      "requests (snd (make_request c env payload (attempt + 1) ?st4)) =
         requests ?st4 @ replicate (Suc n) ?req"
      "sleeps (snd (make_request c env payload (attempt + 1) ?st4)) =
         sleeps ?st4 @ map (\<lambda>k. sleep_time (attempt + 1 + int k)) [0..<n]"
      "timeline (snd (make_request c env payload (attempt + 1) ?st4)) =
         timeline ?st4 @
         concat (map (\<lambda>k. [Attempted (attempt + 1 + int k), Slept (sleep_time (attempt + 1 + int k))]) [0..<n]) @
         [Attempted (attempt + 1 + int n)]"
      "session (snd (make_request c env payload (attempt + 1) ?st4)) = session (get_session c ?st4)"
      by (auto simp: Let_def)
    show ?thesis
      using n(1) lt
      by (intro exI[of _ "Suc n"])
         (auto simp add: rec n map_upt_Suc add.assoc simp del: upt_Suc)
  qed
qed

lemma make_request_exhaust:
  assumes "\<forall>k. retryable (env k)"
  shows "(\<exists>msg. fst (make_request c env payload attempt st) = Inl (ZuduAPIException msg) \<and>
            (msg = ''Request timeout after retries'' \<or> (\<exists>m. msg = ''Connection error: '' @ m))) \<and>
         length (requests (snd (make_request c env payload attempt st))) =
           length (requests st) + Suc (nat (max_retries c - attempt))"
  using assms
proof (induction c env payload attempt st rule: make_request.induct)
  case (1 c env payload attempt st)
  note assms = "1.prems"
  show ?case
  proof (cases "attempt < max_retries c")
    case False
    have r: "retryable (env (length (requests st)))" using assms by simp
    from False have stop: "\<not> (retryable (env (length (requests st))) \<and> attempt < max_retries c)" by simp
    show ?thesis
      using r False
      by (auto simp: make_request_stop[of env st attempt c payload, OF stop] retryable_def split: sum.splits exn.splits)
  next
    case True
    have r: "retryable (env (length (requests st)))" using assms by simp
    note rec = make_request_retry[of env st attempt c payload, OF r True]
    from r obtain e where e: "post_outcome (env (length (requests st))) = Inl e"
      "e = TimeoutError \<or> (\<exists>m. e = ClientError m)"
      by (auto simp: retryable_def split: sum.splits exn.splits)
    have "Suc (nat (max_retries c - attempt)) = Suc (Suc (nat (max_retries c - (attempt + 1))))"
      using True by simp
    with e True show ?thesis
      using "1.IH"(1)[OF refl refl refl refl] "1.IH"(2)[OF refl refl refl refl] assms
      by (auto simp: rec)
  qed
qed

lemma sleep_time_nat: "sleep_time (1 + int k) = 2 ^ Suc k"
  by (simp add: sleep_time_def nat_add_distrib)

lemma backoff_list: "map (\<lambda>k. sleep_time (1 + int k)) [0..<n] = map (\<lambda>a. 2 ^ a) [1..<Suc n]"
  by (induction n) (simp_all add: sleep_time_nat)

lemma backoff_timeline:
  "concat (map (\<lambda>k. [Attempted (1 + int k), Slept (sleep_time (1 + int k))]) [0..<n]) =
     concat (map (\<lambda>a. [Attempted (int a), Slept (2 ^ a)]) [1..<Suc n])"
  by (induction n) (simp_all add: sleep_time_nat)

lemma demo_run_timeouts:
  "make_request demo_client env_timeout payload 1 net0 =
     (Inl (ZuduAPIException ''Request timeout after retries''),
      \<lparr>session = Some \<lparr>total_timeout = 10, closed = False\<rparr>,
       requests = replicate 3 \<lparr>url = endpoint demo_client, body = payload, headers = make_headers demo_client\<rparr>,
       sleeps = [2, 4],
       attempt_log = [(1, 3), (2, 3), (3, 3)],
       timeline = [Attempted 1, Slept 2, Attempted 2, Slept 4, Attempted 3]\<rparr>)"
  by (simp add: make_request.simps demo_client_def env_timeout_def net0_def get_session_def
        post_outcome_def sleep_time_def Let_def make_headers_def bearer_def numeral_3_eq_3)

lemma analyze_state:
  "\<not> key_missing c \<Longrightarrow>
     snd (analyze_clinical_context c env v ra st) = snd (make_request c env (build_payload v ra) 1 st)"
  by (auto simp: analyze_clinical_context_def analyze_try_def split: prod.splits sum.splits exn.splits)

lemma analyze_on_exception:
  "\<not> key_missing c \<Longrightarrow> fst (make_request c env (build_payload v ra) 1 st) = Inl (ZuduAPIException msg) \<Longrightarrow>
     fst (analyze_clinical_context c env v ra st) = Inr (get_fallback_response msg)"
  by (auto simp: analyze_clinical_context_def analyze_try_def split: prod.splits sum.splits exn.splits)

lemma fallback_fields:
  "clinical_insights (get_fallback_response reason) =
     JStr (''Zudu AI unavailable ('' @ reason @ ''). Using clinical rules assessment.'')"
  "recommended_actions (get_fallback_response reason) = JArr default_actions"
  "urgency_score (get_fallback_response reason) = JNum 5"
  "zudu_available (get_fallback_response reason) = False"
  by (simp_all add: get_fallback_response_def)

lemma analyze_returns: "\<exists>r. fst (analyze_clinical_context c env v ra st) = Inr r"
  by (cases "analyze_try c env v ra st")
     (auto simp: analyze_clinical_context_def split: sum.splits exn.splits)

subsection \<open>Claims about the insight client\<close>



text \<open>
  C2. With a configured key, every run of \<open>analyze_clinical_context\<close> sends \<open>n + 1\<close> requests
  for some number \<open>n\<close> of retries with \<open>n = 0\<close> or \<open>n < max_retries\<close>, and the sleeps it
  performs are exactly \<open>2^1, 2^2, ..., 2^n\<close>: in the order of events, attempt number
  \<open>attempt\<close> is followed by a sleep of \<open>2^attempt\<close> and then by the next attempt, and the
  last attempt by no sleep. When every attempt ends in a timeout or a connection failure, the
  number of attempts is \<open>max_retries\<close> (one attempt when \<open>max_retries\<close> is below one) and the
  result returned to the caller is the fallback, with the availability flag false and the
  non-empty list of default recommended actions.
\<close>

theorem retry_backoff_then_fallback:
  assumes "\<not> key_missing c"
  shows "\<exists>res st' n. analyze_clinical_context c env v ra st = (Inr res, st') \<and>
           length (requests st') = length (requests st) + Suc n \<and>
           (n = 0 \<or> int n < max_retries c) \<and>
           sleeps st' = sleeps st @ map (\<lambda>attempt. 2 ^ attempt) [1..<Suc n] \<and>
           timeline st' =
             timeline st @
             concat (map (\<lambda>attempt. [Attempted (int attempt), Slept (2 ^ attempt)]) [1..<Suc n]) @
             [Attempted (int (Suc n))] \<and>
           ((\<forall>k. retryable (env k)) \<longrightarrow>
              int (Suc n) = max 1 (max_retries c) \<and>
              (\<exists>reason. res = get_fallback_response reason) \<and>
              \<not> zudu_available res \<and>
              recommended_actions res = JArr default_actions \<and>
              default_actions \<noteq> [])"
proof -
  let ?p = "build_payload v ra"
  let ?A = "analyze_clinical_context c env v ra st"
  obtain n where n: "n = 0 \<or> 1 + int n \<le> max_retries c"
    "requests (snd (make_request c env ?p 1 st)) =
       requests st @ replicate (Suc n) \<lparr>url = endpoint c, body = ?p, headers = make_headers c\<rparr>"
    "sleeps (snd (make_request c env ?p 1 st)) =
       sleeps st @ map (\<lambda>k. sleep_time (1 + int k)) [0..<n]"
    "timeline (snd (make_request c env ?p 1 st)) =
       timeline st @
       concat (map (\<lambda>k. [Attempted (1 + int k), Slept (sleep_time (1 + int k))]) [0..<n]) @
       [Attempted (1 + int n)]"
    using make_request_trace [of 1 c env ?p st] by blast
  obtain r where r: "fst ?A = Inr r"
    using analyze_returns [of c env v ra st] by blast
  have st: "snd ?A = snd (make_request c env ?p 1 st)"
    using assms by (rule analyze_state)
  have len: "length (requests (snd ?A)) = length (requests st) + Suc n"
    using n(2) st by simp
  have sl: "sleeps (snd ?A) = sleeps st @ map (\<lambda>attempt. 2 ^ attempt) [1..<Suc n]"
    using n(3) st by (simp only: backoff_list)
  have tl: "timeline (snd ?A) =
              timeline st @
              concat (map (\<lambda>attempt. [Attempted (int attempt), Slept (2 ^ attempt)]) [1..<Suc n]) @
              [Attempted (int (Suc n))]"
    using n(4) st by (simp only: backoff_timeline) simp
  have bound: "n = 0 \<or> int n < max_retries c"
    using n(1) by auto
  have ex: "int (Suc n) = max 1 (max_retries c) \<and>
            (\<exists>reason. r = get_fallback_response reason) \<and>
            \<not> zudu_available r \<and>
            recommended_actions r = JArr default_actions \<and>
            default_actions \<noteq> []" if all: "\<forall>k. retryable (env k)"
  proof -
    from make_request_exhaust [OF all, of c ?p 1 st]
    obtain msg where m: "fst (make_request c env ?p 1 st) = Inl (ZuduAPIException msg)"
      and l: "length (requests (snd (make_request c env ?p 1 st))) =
                length (requests st) + Suc (nat (max_retries c - 1))"
      by blast
    from l n(2) have "n = nat (max_retries c - 1)" by simp
    then have cnt: "int (Suc n) = max 1 (max_retries c)" by auto
    from analyze_on_exception [OF assms m] r have "r = get_fallback_response msg" by simp
    with cnt show ?thesis
      by (auto simp: fallback_fields default_actions_def)
  qed
  show ?thesis
    using r len bound sl tl ex
    by (intro exI[of _ r] exI[of _ "snd ?A"] exI[of _ n]) (auto simp: prod_eq_iff)
qed

theorem retry_backoff_then_fallback_witness:
  "\<not> key_missing demo_client \<and> (\<forall>k. retryable (env_timeout k)) \<and>
   analyze_clinical_context demo_client env_timeout demo_vitals demo_assessment net0 =
     (Inr (get_fallback_response ''Request timeout after retries''),
      \<lparr>session = Some \<lparr>total_timeout = 10, closed = False\<rparr>,
       requests = replicate 3 \<lparr>url = endpoint demo_client,
                      body = build_payload demo_vitals demo_assessment,
                      headers = make_headers demo_client\<rparr>,
       sleeps = [2, 4],
       attempt_log = [(1, 3), (2, 3), (3, 3)],
       timeline = [Attempted 1, Slept 2, Attempted 2, Slept 4, Attempted 3]\<rparr>) \<and>
   (\<exists>res st' n.
      analyze_clinical_context demo_client env_timeout demo_vitals demo_assessment net0 =
        (Inr res, st') \<and>
      length (requests st') = length (requests net0) + Suc n \<and>
      sleeps st' = sleeps net0 @ map (\<lambda>attempt. 2 ^ attempt) [1..<Suc n] \<and>
      int (Suc n) = max 1 (max_retries demo_client) \<and>
      \<not> zudu_available res \<and>
      recommended_actions res = JArr default_actions \<and>
      default_actions \<noteq> [])"
proof -
  have k: "\<not> key_missing demo_client"
    by (simp add: key_missing_def demo_client_def)
  have all: "\<forall>k. retryable (env_timeout k)"
    by (simp add: retryable_def env_timeout_def post_outcome_def)
  have run: "analyze_clinical_context demo_client env_timeout demo_vitals demo_assessment net0 =
     (Inr (get_fallback_response ''Request timeout after retries''),
      \<lparr>session = Some \<lparr>total_timeout = 10, closed = False\<rparr>,
       requests = replicate 3 \<lparr>url = endpoint demo_client,
                      body = build_payload demo_vitals demo_assessment,
                      headers = make_headers demo_client\<rparr>,
       sleeps = [2, 4],
       attempt_log = [(1, 3), (2, 3), (3, 3)],
       timeline = [Attempted 1, Slept 2, Attempted 2, Slept 4, Attempted 3]\<rparr>)"
    using k by (simp add: analyze_clinical_context_def analyze_try_def demo_run_timeouts)
  from retry_backoff_then_fallback [OF k, of env_timeout demo_vitals demo_assessment net0] all
  have "\<exists>res st' n.
      analyze_clinical_context demo_client env_timeout demo_vitals demo_assessment net0 =
        (Inr res, st') \<and>
      length (requests st') = length (requests net0) + Suc n \<and>
      sleeps st' = sleeps net0 @ map (\<lambda>attempt. 2 ^ attempt) [1..<Suc n] \<and>
      int (Suc n) = max 1 (max_retries demo_client) \<and>
      \<not> zudu_available res \<and>
      recommended_actions res = JArr default_actions \<and>
      default_actions \<noteq> []"
    by blast
  with k all run show ?thesis by blast
qed

text \<open>
  C3, as stated: when the service answers HTTP 429 to every request, the client makes
  \<open>max_retries\<close> attempts before it returns the fallback. This fails: with \<open>max_retries = 3\<close>
  the client sends one request, never sleeps and returns the fallback at once, because a
  429 raises \<open>ZuduAPIException\<close>, which neither retry handler of \<open>_make_request\<close> catches.
\<close>

theorem rate_limit_retries_counterexample:
  "max_retries demo_client = 3 \<and>
   length (requests (snd (analyze_clinical_context demo_client (env_status 429)
                            demo_vitals demo_assessment net0))) = 1 \<and>
   sleeps (snd (analyze_clinical_context demo_client (env_status 429)
                  demo_vitals demo_assessment net0)) = []"
  by (simp add: analyze_clinical_context_def analyze_try_def key_missing_def demo_client_def
        make_request.simps env_status_def post_outcome_def on_response_def Let_def net0_def
        get_session_def)

text \<open>
  C3, amended: when the key is configured and the service answers HTTP 429 to every
  request, \<open>analyze_clinical_context\<close> makes exactly one attempt, without sleeping or
  retrying, and returns the fallback for the reason \<open>Rate limit exceeded\<close>, whose availability
  flag is false.
\<close>

theorem rate_limit_single_attempt:
  assumes "\<not> key_missing c"
    and "\<forall>k. \<exists>r. env k = Responded r \<and> status r = 429"
  shows "\<exists>st'. analyze_clinical_context c env v ra st =
                  (Inr (get_fallback_response ''Rate limit exceeded''), st') \<and>
           requests st' = requests st @
             [\<lparr>url = endpoint c, body = build_payload v ra, headers = make_headers c\<rparr>] \<and>
           sleeps st' = sleeps st \<and>
           attempt_log st' = attempt_log st @ [(1, max_retries c)] \<and>
           timeline st' = timeline st @ [Attempted 1] \<and>
           \<not> zudu_available (get_fallback_response ''Rate limit exceeded'')"
proof -
  from assms(2) obtain r where r: "env (length (requests st)) = Responded r" "status r = 429"
    by blast
  then have out: "post_outcome (env (length (requests st))) =
                    Inl (ZuduAPIException ''Rate limit exceeded'')"
    by (simp add: post_outcome_def on_response_def)
  then have nr: "\<not> (retryable (env (length (requests st))) \<and> 1 < max_retries c)"
    by (simp add: retryable_def)
  note stop = make_request_stop [of env st 1 c "build_payload v ra", OF nr]
  have f: "fst (make_request c env (build_payload v ra) 1 st) =
             Inl (ZuduAPIException ''Rate limit exceeded'')"
    using stop(2) out by simp
  show ?thesis
    using assms(1) f stop(1)
    by (cases "make_request c env (build_payload v ra) 1 st")
       (auto simp: analyze_clinical_context_def analyze_try_def fallback_fields)
qed

theorem rate_limit_single_attempt_witness:
  "\<not> key_missing demo_client \<and>
   (\<forall>k. \<exists>r. env_status 429 k = Responded r \<and> status r = 429) \<and>
   (\<exists>st'. analyze_clinical_context demo_client (env_status 429) demo_vitals demo_assessment net0 =
            (Inr (get_fallback_response ''Rate limit exceeded''), st') \<and>
          requests st' = [\<lparr>url = endpoint demo_client,
                            body = build_payload demo_vitals demo_assessment,
                            headers = make_headers demo_client\<rparr>] \<and>
          sleeps st' = [] \<and>
          attempt_log st' = [(1, 3)] \<and>
          timeline st' = [Attempted 1])"
proof -
  have k: "\<not> key_missing demo_client"
    by (simp add: key_missing_def demo_client_def)
  have e: "\<forall>k. \<exists>r. env_status 429 k = Responded r \<and> status r = 429"
    by (simp add: env_status_def)
  have m: "max_retries demo_client = 3"
    by (simp add: demo_client_def)
  show ?thesis
    using rate_limit_single_attempt [OF k e, of demo_vitals demo_assessment net0] k e m
    by (auto simp: net0_def)
qed

text \<open>
  C4. When the configured API key is missing (\<open>None\<close>), empty, or the placeholder value,
  \<open>analyze_clinical_context\<close> returns the fallback for the reason \<open>API key not configured\<close>
  and leaves the state as it found it: no session is created, no request is sent, nothing
  is logged by \<open>_make_request\<close> and no sleep happens, whatever the service would answer.
\<close>

theorem missing_key_short_circuit:
  assumes "api_key c = None \<or> api_key c = Some [] \<or> api_key c = Some ''your_zudu_api_key_here''"
  shows "analyze_clinical_context c env v ra st =
           (Inr (get_fallback_response ''API key not configured''), st)"
  using assms by (auto simp: analyze_clinical_context_def key_missing_def)

theorem missing_key_short_circuit_witness:
  "analyze_clinical_context (demo_client\<lparr>api_key := None\<rparr>) (env_status 200)
     demo_vitals demo_assessment net0 =
     (Inr (get_fallback_response ''API key not configured''), net0) \<and>
   analyze_clinical_context (demo_client\<lparr>api_key := Some []\<rparr>) (env_status 200)
     demo_vitals demo_assessment net0 =
     (Inr (get_fallback_response ''API key not configured''), net0) \<and>
   analyze_clinical_context (demo_client\<lparr>api_key := Some ''your_zudu_api_key_here''\<rparr>)
     (env_status 200) demo_vitals demo_assessment net0 =
     (Inr (get_fallback_response ''API key not configured''), net0)"
  using missing_key_short_circuit [of "demo_client\<lparr>api_key := None\<rparr>"
          "env_status 200" demo_vitals demo_assessment net0]
        missing_key_short_circuit [of "demo_client\<lparr>api_key := Some []\<rparr>"
          "env_status 200" demo_vitals demo_assessment net0]
        missing_key_short_circuit [of "demo_client\<lparr>api_key := Some ''your_zudu_api_key_here''\<rparr>"
          "env_status 200" demo_vitals demo_assessment net0]
  by simp




text \<open>
  C8. \<open>_make_request\<close> is a total function: the recursion is accepted with the measure
  \<open>max_retries - attempt\<close>, so it returns for every client, service behaviour, payload,
  attempt number and state. For a starting attempt number of at least 1 the attempt
  numbers logged by its invocations are \<open>attempt, attempt + 1, ..., attempt + n\<close>, each
  recursive self-invocation raising the counter by one; every recursive invocation runs
  with a counter of at most \<open>max_retries\<close>; the number \<open>n\<close> of recursive self-invocations
  never exceeds a non-negative \<open>max_retries\<close>, and the number \<open>n + 1\<close> of nested invocations,
  the first call included, never exceeds \<open>max_retries\<close> when that is at least one.
\<close>

theorem make_request_bounded_recursion:
  assumes "1 \<le> attempt"
  shows "\<exists>res st' n. make_request c env payload attempt st = (res, st') \<and>
           attempt_log st' =
             attempt_log st @ map (\<lambda>k. (attempt + int k, max_retries c)) [0..<Suc n] \<and>
           (n = 0 \<or> attempt + int n \<le> max_retries c) \<and>
           (0 \<le> max_retries c \<longrightarrow> int n \<le> max_retries c) \<and>
           (1 \<le> max_retries c \<longrightarrow> int (Suc n) \<le> max_retries c)"
proof -
  obtain n where n: "n = 0 \<or> attempt + int n \<le> max_retries c"
    "attempt_log (snd (make_request c env payload attempt st)) =
       attempt_log st @ map (\<lambda>k. (attempt + int k, max_retries c)) [0..<Suc n]"
    using make_request_trace [of attempt c env payload st] by blast
  from n(1) assms have "0 \<le> max_retries c \<longrightarrow> int n \<le> max_retries c"
    and "1 \<le> max_retries c \<longrightarrow> int (Suc n) \<le> max_retries c"
    by auto
  with n show ?thesis
    by (intro exI[of _ "fst (make_request c env payload attempt st)"]
              exI[of _ "snd (make_request c env payload attempt st)"] exI[of _ n]) simp
qed

theorem make_request_bounded_recursion_witness:
  "(1::int) \<le> 1 \<and> 1 \<le> max_retries demo_client \<and>
   attempt_log (snd (make_request demo_client env_timeout JNull 1 net0)) =
     [(1, 3), (2, 3), (3, 3)] \<and>
   (\<exists>res st' n. make_request demo_client env_timeout JNull 1 net0 = (res, st') \<and>
      attempt_log st' =
        attempt_log net0 @ map (\<lambda>k. (1 + int k, max_retries demo_client)) [0..<Suc n] \<and>
      int (Suc n) \<le> max_retries demo_client)"
proof -
  have a: "(1::int) \<le> 1" by simp
  have m: "1 \<le> max_retries demo_client" by (simp add: demo_client_def)
  have l: "attempt_log (snd (make_request demo_client env_timeout JNull 1 net0)) =
             [(1, 3), (2, 3), (3, 3)]"
    by (simp add: demo_run_timeouts)
  from make_request_bounded_recursion [OF a, of demo_client env_timeout JNull net0] m
  have "\<exists>res st' n. make_request demo_client env_timeout JNull 1 net0 = (res, st') \<and>
      attempt_log st' =
        attempt_log net0 @ map (\<lambda>k. (1 + int k, max_retries demo_client)) [0..<Suc n] \<and>
      int (Suc n) \<le> max_retries demo_client"
    by blast
  with a m l show ?thesis by blast
qed

section \<open>Properties of registration and invite codes\<close>

lemma find_one_append:
  "find_one (ds @ es) c = (case find_one ds c of None \<Rightarrow> find_one es c | Some d \<Rightarrow> Some d)"
  by (induction ds) (simp_all add: find_one_def)

lemma find_one_code: "find_one ds c = Some d \<Longrightarrow> code d = c"
  by (induction ds) (auto simp: find_one_def split: if_splits)

lemma find_one_update_same:
  assumes "\<And>d. code (f d) = code d"
  shows "find_one (update_one c f ds) c = map_option f (find_one ds c)"
  using assms by (induction ds) (simp_all add: find_one_def)

lemma find_one_update_other:
  assumes "\<And>d. code (f d) = code d" and "c' \<noteq> c"
  shows "find_one (update_one c' f ds) c = find_one ds c"
  using assms by (induction ds) (simp_all add: find_one_def)

lemma code_mark_used [simp]: "code (mark_used uid t d) = code d"
  by (simp add: mark_used_def)

lemma used_mark_used [simp]: "used (mark_used uid t d)"
  by (simp add: mark_used_def used_def)

lemma generate_loop_effect:
  "generate_loop g request idx (acc, db) =
     (acc @ map (token_urlsafe g) idx,
      db\<lparr>invite_codes := invite_codes db @ map (\<lambda>i. new_invite g request (token_urlsafe g i)) idx\<rparr>)"
  by (induction idx arbitrary: acc db) simp_all

lemma generate_effect:
  "snd (generate_invite_codes g request db) =
     db\<lparr>invite_codes := invite_codes db @
          map (\<lambda>i. new_invite g request (token_urlsafe g i)) [0..<nat (count request)]\<rparr>"
  by (simp add: generate_invite_codes_def generate_loop_effect)

lemma spent_generate: "spent db c \<Longrightarrow> spent (snd (generate_invite_codes g request db)) c"
  by (auto simp: generate_effect spent_def find_one_append split: option.splits)

lemma register_invites:
  "invite_codes (snd (register e request db)) = invite_codes db \<or>
   (\<exists>c uid t. invite_codes (snd (register e request db)) = update_one c (mark_used uid t) (invite_codes db))"
  by (auto simp: register_def create_user_def Let_def split: option.splits)

lemma spent_update: "spent db c \<Longrightarrow> invite_codes db' = update_one c' (mark_used uid t) (invite_codes db) \<Longrightarrow> spent db' c"
  by (cases "c' = c")
     (auto simp: spent_def find_one_update_same find_one_update_other split: option.splits)

lemma spent_register: "spent db c \<Longrightarrow> spent (snd (register e request db)) c"
  using register_invites [of e request db]
  by (auto dest: spent_update) (simp add: spent_def)

lemma spent_run: "spent db c \<Longrightarrow> spent (run calls db) c"
proof (induction calls arbitrary: db)
  case Nil
  then show ?case by simp
next
  case (Cons a calls)
  then show ?case
    by (cases a) (simp_all add: spent_register spent_generate)
qed

lemma register_spent:
  assumes "spent db c" and "role request = ''doctor''" and "invite_code request = Some c"
    and "c \<noteq> []"
  shows "register e request db =
           (if get_user_by_email db (email request) = None
            then (Inl (HTTPException 403 ''Invite code has already been used''), db)
            else (Inl (HTTPException 409 ''Email already registered''), db))"
proof -
  from assms(1) obtain d where d: "find_one (invite_codes db) c = Some d" "used d"
    by (auto simp: spent_def split: option.splits)
  with assms show ?thesis
    by (auto simp: register_def validate_invite_def split: option.splits)
qed

lemma register_success_code:
  assumes "register e request db = (Inr tok, db')"
    and "role request = ''doctor''" and "invite_code request = Some c"
  shows "c \<noteq> []"
  using assms
  by (auto simp: register_def validate_invite_def split: option.splits if_splits)

lemma register_success_marks:
  assumes "register e request db = (Inr tok, db')"
    and "role request = ''doctor''" and "invite_code request = Some c"
  shows "\<exists>d. find_one (invite_codes db') c = Some d \<and> is_used d = Value True"
proof -
  from assms have v: "validate_invite e request db = None"
    by (auto simp: register_def split: option.splits)
  with assms(2,3) have ne: "c \<noteq> []"
    by (auto simp: validate_invite_def split: if_splits)
  from v assms(2,3) ne obtain d where d: "find_one (invite_codes db) c = Some d"
    by (auto simp: validate_invite_def split: option.splits if_splits)
  from assms ne have "invite_codes db' =
      update_one c (mark_used (new_user_id e) (Naive (now e))) (invite_codes db)"
    by (auto simp: register_def create_user_def Let_def split: option.splits)
  with d show ?thesis
    by (simp add: find_one_update_same mark_used_def)
qed

lemma register_null_expiry:
  assumes "get_user_by_email db (email request) = None"
    and "role request = ''doctor''" and "invite_code request = Some c" and "c \<noteq> []"
    and "find_one (invite_codes db) c = Some d" and "\<not> used d"
    and "invite_doc.expires_at d = Null"
  shows "register e request db =
           (Inl (AttributeError ''NoneType object has no attribute tzinfo''), db)"
  using assms by (simp add: register_def validate_invite_def check_expiry_def)

lemma invited_db_value:
  "invited_db =
     \<lparr>users = [],
      invite_codes =
        [\<lparr>code = ''kX9mPqL8'', invite_doc.role = ''doctor'', is_used = Value False,
          invite_doc.created_at = Naive 0, invite_doc.expires_at = Value (Naive 604800000),
          used_by = None, used_at = None\<rparr>]\<rparr>"
  by (simp add: invited_db_def generate_effect expiring_codes_def empty_db_def demo_gen_def
        new_invite_def expiration_def)

lemma first_registration:
  "register demo_reg doctor_request invited_db =
     (Inr \<lparr>access_token = ''u1.doctor'', token_type = ''bearer'', expires_in = 1800,
           user_id = ''u1'', token_response.role = ''doctor'',
           token_response.full_name = ''Dr. Jane Smith''\<rparr>,
      \<lparr>users =
         [(''u1'', \<lparr>user_document.email = ''dr.smith@hospital.com'',
                   hashed_password = ''#SecurePass123'',
                   user_document.full_name = ''Dr. Jane Smith'',
                   user_document.role = ''doctor'',
                   user_document.details = no_profile,
                   user_document.created_at = Naive 1000\<rparr>)],
       invite_codes =
         [\<lparr>code = ''kX9mPqL8'', invite_doc.role = ''doctor'', is_used = Value True,
           invite_doc.created_at = Naive 0, invite_doc.expires_at = Value (Naive 604800000),
           used_by = Some ''u1'', used_at = Some (Naive 1000)\<rparr>]\<rparr>)"
  by (simp add: invited_db_value register_def get_user_by_email_def validate_invite_def
        doctor_request_def demo_reg_def find_one_def used_def check_expiry_def create_user_def
        mark_used_def Let_def)

subsection \<open>Claims about invite codes\<close>

text \<open>
  C9, as stated: after a doctor registration succeeded with invite code \<open>c\<close>, every later
  register call presenting \<open>c\<close> for the doctor role is rejected with HTTP 403. This fails
  for a call whose email is already registered: \<open>register\<close> checks the email before the
  invite code and answers HTTP 409. Here the first registration succeeds and the same
  request, sent again, is rejected with 409, not 403.
\<close>

theorem reused_invite_status_counterexample:
  "fst (register demo_reg doctor_request invited_db) =
     Inr \<lparr>access_token = ''u1.doctor'', token_type = ''bearer'', expires_in = 1800,
          user_id = ''u1'', token_response.role = ''doctor'',
          token_response.full_name = ''Dr. Jane Smith''\<rparr> \<and>
   role doctor_request = ''doctor'' \<and>
   invite_code doctor_request = Some ''kX9mPqL8'' \<and>
   register second_reg doctor_request registered_db =
     (Inl (HTTPException 409 ''Email already registered''), registered_db)"
  by (simp add: registered_db_def first_registration)
     (simp add: register_def get_user_by_email_def doctor_request_def)

text \<open>
  C9, amended: invite codes are single-use. After a doctor registration succeeds using
  invite code \<open>c\<close>, the stored document for \<open>c\<close> has \<open>is_used\<close> set to true, and after any
  further sequence of register and generate calls every register call presenting \<open>c\<close> for
  the doctor role is rejected without changing the database, so without creating a user:
  with HTTP 403 (invite code already used) when its email is not registered, and with
  HTTP 409 (email already registered) otherwise.
\<close>

theorem invite_code_single_use:
  assumes "register e request db = (Inr tok, db')"
    and "role request = ''doctor''"
    and "invite_code request = Some c"
  shows "(\<exists>d. find_one (invite_codes db') c = Some d \<and> is_used d = Value True) \<and>
         (\<forall>calls e' request'.
            role request' = ''doctor'' \<and> invite_code request' = Some c \<longrightarrow>
            register e' request' (run calls db') =
              (if get_user_by_email (run calls db') (email request') = None
               then (Inl (HTTPException 403 ''Invite code has already been used''), run calls db')
               else (Inl (HTTPException 409 ''Email already registered''), run calls db')))"
proof -
  from register_success_marks [OF assms]
  obtain d where d: "find_one (invite_codes db') c = Some d" "is_used d = Value True"
    by blast
  then have s: "spent db' c"
    by (simp add: spent_def used_def)
  have ne: "c \<noteq> []"
    using assms by (rule register_success_code)
  have "register e' request' (run calls db') =
          (if get_user_by_email (run calls db') (email request') = None
           then (Inl (HTTPException 403 ''Invite code has already been used''), run calls db')
           else (Inl (HTTPException 409 ''Email already registered''), run calls db'))"
    if "role request' = ''doctor''" "invite_code request' = Some c" for calls e' request'
    using register_spent [OF spent_run [OF s, of calls] that ne] .
  with d show ?thesis by blast
qed

theorem invite_code_single_use_witness:
  "register demo_reg doctor_request invited_db =
     (Inr \<lparr>access_token = ''u1.doctor'', token_type = ''bearer'', expires_in = 1800,
           user_id = ''u1'', token_response.role = ''doctor'',
           token_response.full_name = ''Dr. Jane Smith''\<rparr>, registered_db) \<and>
   map is_used (invite_codes registered_db) = [Value True] \<and>
   register second_reg (doctor_request\<lparr>email := ''mallory@evil.example''\<rparr>)
       (run [Generate demo_gen lasting_codes] registered_db) =
     (Inl (HTTPException 403 ''Invite code has already been used''),
      run [Generate demo_gen lasting_codes] registered_db) \<and>
   map fst (users (run [Generate demo_gen lasting_codes] registered_db)) = [''u1'']"
proof -
  have first: "register demo_reg doctor_request invited_db =
     (Inr \<lparr>access_token = ''u1.doctor'', token_type = ''bearer'', expires_in = 1800,
           user_id = ''u1'', token_response.role = ''doctor'',
           token_response.full_name = ''Dr. Jane Smith''\<rparr>, registered_db)"
    by (simp add: registered_db_def first_registration)
  have r: "role doctor_request = ''doctor''" and i: "invite_code doctor_request = Some ''kX9mPqL8''"
    by (simp_all add: doctor_request_def)
  have u: "users (run [Generate demo_gen lasting_codes] registered_db) = users registered_db"
    by (simp add: generate_effect)
  have fresh: "get_user_by_email (run [Generate demo_gen lasting_codes] registered_db)
                 (email (doctor_request\<lparr>email := ''mallory@evil.example''\<rparr>)) = None"
    unfolding get_user_by_email_def u
    by (simp add: registered_db_def first_registration)
  have l: "map is_used (invite_codes registered_db) = [Value True]"
    "map fst (users (run [Generate demo_gen lasting_codes] registered_db)) = [''u1'']"
    unfolding u
    by (simp_all add: registered_db_def first_registration)
  have q: "role (doctor_request\<lparr>email := ''mallory@evil.example''\<rparr>) = ''doctor'' \<and>
           invite_code (doctor_request\<lparr>email := ''mallory@evil.example''\<rparr>) = Some ''kX9mPqL8''"
    by (simp add: doctor_request_def)
  from invite_code_single_use [OF first r i] q
  have "register second_reg (doctor_request\<lparr>email := ''mallory@evil.example''\<rparr>)
          (run [Generate demo_gen lasting_codes] registered_db) =
        (if get_user_by_email (run [Generate demo_gen lasting_codes] registered_db)
              (email (doctor_request\<lparr>email := ''mallory@evil.example''\<rparr>)) = None
         then (Inl (HTTPException 403 ''Invite code has already been used''),
               run [Generate demo_gen lasting_codes] registered_db)
         else (Inl (HTTPException 409 ''Email already registered''),
               run [Generate demo_gen lasting_codes] registered_db))"
    by blast
  with first fresh l show ?thesis
    by (simp only: if_True simp_thms)
qed

text \<open>
  C10 says that a doctor registration presenting an unused code from
  \<open>generate_invite_codes\<close> always ends with a token or an HTTP 403, also for a code generated
  without expiration. The code does otherwise: a code generated without \<open>expires_days\<close> is
  stored with the key \<open>expires_at\<close> present and the value \<open>None\<close>; \<open>register\<close> finds the key,
  reads \<open>expires_at.tzinfo\<close> and raises \<open>AttributeError\<close>, which nothing catches. No user is
  created and the code stays unused.
\<close>

theorem unexpiring_invite_raises:
  "map invite_doc.expires_at
     (invite_codes (snd (generate_invite_codes demo_gen lasting_codes empty_db))) = [Null] \<and>
   codes (fst (generate_invite_codes demo_gen lasting_codes empty_db)) = [''kX9mPqL8''] \<and>
   register demo_reg doctor_request (snd (generate_invite_codes demo_gen lasting_codes empty_db)) =
     (Inl (AttributeError ''NoneType object has no attribute tzinfo''),
      snd (generate_invite_codes demo_gen lasting_codes empty_db))"
proof -
  have g: "generate_invite_codes demo_gen lasting_codes empty_db =
     (\<lparr>codes = [''kX9mPqL8''], invite_code_response.role = ''doctor'',
       invite_code_response.expires_at = None\<rparr>,
      \<lparr>users = [],
       invite_codes =
         [\<lparr>code = ''kX9mPqL8'', invite_doc.role = ''doctor'', is_used = Value False,
           invite_doc.created_at = Naive 0, invite_doc.expires_at = Null,
           used_by = None, used_at = None\<rparr>]\<rparr>)"
    by (simp add: generate_invite_codes_def generate_loop_effect lasting_codes_def empty_db_def
          demo_gen_def new_invite_def expiration_def)
  show ?thesis
    by (simp add: g register_def get_user_by_email_def validate_invite_def doctor_request_def
          demo_reg_def find_one_def used_def check_expiry_def)
qed

section \<open>Properties of the statistics and the decision pipeline\<close>

lemma classify_sources:
  "fst (classify cfg s p) =
     arbitrate (rules s)
       (if state (elapse cfg (arrival s) (circuit p)) = OPEN then None else model_answer s)"
  by (simp add: classify_def Let_def)

lemma arbitrate_none [simp]: "source (arbitrate r None) = RULES_FALLBACK"
  by (simp add: arbitrate_def)

lemma classify_ledger:
  "ledger (snd (classify cfg s p)) =
     ledger p @
       [\<lparr>dispatched_in = state (elapse cfg (arrival s) (circuit p)),
         left_in = state (circuit (snd (classify cfg s p))),
         assessment = fst (classify cfg s p)\<rparr>]"
  by (simp add: classify_def Let_def)

lemma classify_left_open:
  assumes "state (circuit (snd (classify cfg s p))) = OPEN"
  shows "source (fst (classify cfg s p)) = RULES_FALLBACK"
proof (cases "state (elapse cfg (arrival s) (circuit p)) = OPEN")
  case True
  then show ?thesis by (simp add: classify_sources)
next
  case False
  with assms have "model_answer s = None"
    by (auto simp: classify_def Let_def record_success_def split: option.splits)
  then show ?thesis by (simp add: classify_sources)
qed

text \<open>
  The ledger invariant: an entry dispatched by an OPEN breaker, or leaving the breaker
  OPEN, carries the engine source RULES\_FALLBACK.
\<close>

lemma serve_invariant:
  assumes "\<forall>e \<in> set (ledger p).
             dispatched_in e = OPEN \<or> left_in e = OPEN \<longrightarrow> source (assessment e) = RULES_FALLBACK"
  shows "\<forall>e \<in> set (ledger (serve cfg subs p)).
           dispatched_in e = OPEN \<or> left_in e = OPEN \<longrightarrow> source (assessment e) = RULES_FALLBACK"
  using assms
proof (induction subs arbitrary: p)
  case Nil
  then show ?case by simp
next
  case (Cons s subs)
  have "\<forall>e \<in> set (ledger (snd (classify cfg s p))).
          dispatched_in e = OPEN \<or> left_in e = OPEN \<longrightarrow> source (assessment e) = RULES_FALLBACK"
    using Cons.prems classify_left_open [of cfg s p]
    by (auto simp: classify_ledger classify_sources)
  from Cons.IH [OF this] show ?case by simp
qed

subsection \<open>Claims about the statistics and the circuit breaker\<close>

text \<open>
  C6. The honeypot trigger count that \<open>get_system_health\<close> reports in its statistics equals
  the number of HoneypotEvent records in the honeypot record stream (the number of distinct
  records when no record occurs twice in the stream), for every state of the two streams,
  and it does not change when the assessment records are replaced by any others.
\<close>

theorem honeypot_count_from_own_stream:
  "honeypot_triggers (fsm_statistics (get_system_health dbc ml cb t db)) =
     length (honeypot_alerts db) \<and>
   (distinct (honeypot_alerts db) \<longrightarrow>
      honeypot_triggers (fsm_statistics (get_system_health dbc ml cb t db)) =
        card (set (honeypot_alerts db))) \<and>
   honeypot_triggers
     (fsm_statistics (get_system_health dbc ml cb t (db\<lparr>triage_decisions := decisions\<rparr>))) =
     honeypot_triggers (fsm_statistics (get_system_health dbc ml cb t db))"
  by (simp add: get_system_health_def get_fsm_statistics_def Let_def distinct_card)

theorem honeypot_count_from_own_stream_witness:
  "distinct (honeypot_alerts demo_collections) \<and>
   honeypot_triggers
     (fsm_statistics (get_system_health True True initial_breaker 0 demo_collections)) = 3 \<and>
   card (set (honeypot_alerts demo_collections)) = 3 \<and>
   length (triage_decisions demo_collections) = 1 \<and>
   honeypot_triggers
     (fsm_statistics (get_system_health True True initial_breaker 0
        (demo_collections\<lparr>triage_decisions := []\<rparr>))) = 3"
proof -
  have d: "distinct (honeypot_alerts demo_collections)"
    by (simp add: demo_collections_def probe_event_def)
  have l: "length (honeypot_alerts demo_collections) = 3"
    "length (triage_decisions demo_collections) = 1"
    by (simp_all add: demo_collections_def)
  from honeypot_count_from_own_stream [of True True initial_breaker 0 demo_collections "[]"] d l
  show ?thesis by simp
qed

text \<open>
  C7. Every assessment the pipeline produces carries exactly one engine source, one of RULES,
  MODEL and RULES\_FALLBACK. For every breaker state, a submission dispatched while the
  breaker is OPEN is answered with engine source RULES\_FALLBACK, never MODEL, whatever the
  model classifier would answer; and in every state reached from the initial pipeline by
  any sequence of submissions, each ledger entry that was dispatched by an OPEN breaker, or
  that left the breaker OPEN, has engine source RULES\_FALLBACK and not MODEL.
\<close>

theorem open_breaker_serves_rules_fallback:
  "(source (fst (classify cfg s p)) = RULES \<or> source (fst (classify cfg s p)) = MODEL \<or>
    source (fst (classify cfg s p)) = RULES_FALLBACK) \<and>
   (state (elapse cfg (arrival s) (circuit p)) = OPEN \<longrightarrow>
      source (fst (classify cfg s p)) = RULES_FALLBACK \<and>
      source (fst (classify cfg s p)) \<noteq> MODEL) \<and>
   (\<forall>e \<in> set (ledger (serve cfg subs initial_pipeline)).
      dispatched_in e = OPEN \<or> left_in e = OPEN \<longrightarrow>
      source (assessment e) = RULES_FALLBACK \<and> source (assessment e) \<noteq> MODEL)"
proof -
  have one: "source (fst (classify cfg s p)) = RULES \<or> source (fst (classify cfg s p)) = MODEL \<or>
             source (fst (classify cfg s p)) = RULES_FALLBACK"
    by (cases "source (fst (classify cfg s p))") simp_all
  have step: "state (elapse cfg (arrival s) (circuit p)) = OPEN \<longrightarrow>
                source (fst (classify cfg s p)) = RULES_FALLBACK \<and>
                source (fst (classify cfg s p)) \<noteq> MODEL"
    by (simp add: classify_sources)
  have "\<forall>e \<in> set (ledger initial_pipeline).
          dispatched_in e = OPEN \<or> left_in e = OPEN \<longrightarrow> source (assessment e) = RULES_FALLBACK"
    by (simp add: initial_pipeline_def)
  from serve_invariant [OF this, of cfg subs]
  have "\<forall>e \<in> set (ledger (serve cfg subs initial_pipeline)).
          dispatched_in e = OPEN \<or> left_in e = OPEN \<longrightarrow>
          source (assessment e) = RULES_FALLBACK \<and> source (assessment e) \<noteq> MODEL"
    by auto
  with one step show ?thesis by blast
qed

lemma demo_traffic_ledger:
  "map (\<lambda>e. (dispatched_in e, left_in e, source (assessment e)))
       (ledger (serve demo_config demo_traffic initial_pipeline)) =
     [(CLOSED, CLOSED, RULES_FALLBACK), (CLOSED, OPEN, RULES_FALLBACK),
      (OPEN, OPEN, RULES_FALLBACK), (HALF_OPEN, CLOSED, MODEL)]"
  by (simp add: demo_traffic_def demo_config_def initial_pipeline_def initial_breaker_def
        failing_at_def answered_at_def classify_def elapse_def cooled_def record_failure_def
        record_success_def arbitrate_def hypertension_def model_critical_def Let_def)

theorem open_breaker_serves_rules_fallback_witness:
  "map (\<lambda>e. (dispatched_in e, left_in e, source (assessment e)))
       (ledger (serve demo_config demo_traffic initial_pipeline)) =
     [(CLOSED, CLOSED, RULES_FALLBACK), (CLOSED, OPEN, RULES_FALLBACK),
      (OPEN, OPEN, RULES_FALLBACK), (HALF_OPEN, CLOSED, MODEL)] \<and>
   state (elapse demo_config 2 (circuit (serve demo_config [failing_at 0, failing_at 1]
                                            initial_pipeline))) = OPEN \<and>
   model_answer (answered_at 2) = Some model_critical \<and>
   source (fst (classify demo_config (answered_at 2)
                  (serve demo_config [failing_at 0, failing_at 1] initial_pipeline))) =
     RULES_FALLBACK"
proof -
  have o: "state (elapse demo_config (arrival (answered_at 2))
             (circuit (serve demo_config [failing_at 0, failing_at 1] initial_pipeline))) = OPEN"
    by (simp add: demo_config_def initial_pipeline_def initial_breaker_def
          failing_at_def answered_at_def classify_def elapse_def cooled_def record_failure_def
          Let_def)
  have a: "arrival (answered_at 2) = 2" "model_answer (answered_at 2) = Some model_critical"
    by (simp_all add: answered_at_def)
  from open_breaker_serves_rules_fallback [of demo_config "answered_at 2"
         "serve demo_config [failing_at 0, failing_at 1] initial_pipeline" demo_traffic] o
  have "source (fst (classify demo_config (answered_at 2)
                  (serve demo_config [failing_at 0, failing_at 1] initial_pipeline))) =
          RULES_FALLBACK"
    by blast
  with o a demo_traffic_ledger show ?thesis by simp
qed

end
